theory Spec2Isabelle
  imports Complex_Main
begin

section \<open>DC resistivity forward modelling: the 1D sounding notebook\<close>

text \<open>
  The development follows \<^verbatim>\<open>notebooks/DC-1d-sounding-code.ipynb\<close> cell by cell.
  Floating-point arrays are lists of reals; a Python exception is the left summand of the
  result type, and a cell that raises stops the run.
\<close>

subsection \<open>Errors\<close>

datatype error =
    IndexError
  | ValueError
  | TypeError
  | InvalidModelError
  | DegenerateElectrodeError
  | DegenerateGeometryError nat
  | NumericalInstabilityError nat

subsection \<open>User defined parameters\<close>

text \<open>
  \<^verbatim>\<open>
  half_AB_separation = np.r_[5,10,20,30,40, 40,50,60,70,80,90,100, 100,120,140,160,180,200,
                             200,220,240,260,280,300, 300,320,350,370,400]
  half_MN_separation = np.r_[1,1,1,1,1, 5,5,5,5,5,5,5, 10,10,10,10,10,10,
                             20,20,20,20,20,20, 30,30,30,30,30]
  resistivity_model = np.r_[400, 50, 400, 200, 2000, 20, 2000]
  layer_thicknesses = np.r_[8., 8., 4., 10., 10., 10.]
  add_noise = False
  standard_deviation = 0.05
  \<close>
\<close>

definition half_AB_separation :: "real list" where
  "half_AB_separation =
     [5, 10, 20, 30, 40,
      40, 50, 60, 70, 80, 90, 100,
      100, 120, 140, 160, 180, 200,
      200, 220, 240, 260, 280, 300,
      300, 320, 350, 370, 400]"

definition half_MN_separation :: "real list" where
  "half_MN_separation =
     [1, 1, 1, 1, 1,
      5, 5, 5, 5, 5, 5, 5,
      10, 10, 10, 10, 10, 10,
      20, 20, 20, 20, 20, 20,
      30, 30, 30, 30, 30]"

definition resistivity_model :: "real list" where
  "resistivity_model = [400, 50, 400, 200, 2000, 20, 2000]"

definition layer_thicknesses :: "real list" where
  "layer_thicknesses = [8, 8, 4, 10, 10, 10]"

definition add_noise :: bool where
  "add_noise = False"

definition standard_deviation :: real where
  "standard_deviation = 0.05"

subsection \<open>Electrodes, receivers and sources\<close>

text \<open>An electrode location is the three-component array \<^verbatim>\<open>np.r_[x, 0., 0.]\<close>.\<close>

type_synonym location = "real \<times> real \<times> real"

record receiver =
  M_location :: location
  N_location :: location

record source =
  receiver_list :: "receiver list"
  A_location :: location
  B_location :: location

type_synonym survey = "source list"

text \<open>
  Modelled from the spec: the constructors \<^verbatim>\<open>dc.receivers.Dipole\<close> and
  \<^verbatim>\<open>dc.sources.Dipole\<close> belong to the simulation library, which is not among the
  sources. Section 4.2 of the specification: the survey ``validates that no two same-role
  electrodes coincide exactly (A \<noteq> B, M \<noteq> N) -- fails with DegenerateElectrodeError
  otherwise''. Pole variants (an electrode flagged at infinity) are not used by the notebook
  and are left out.
\<close>

definition receivers_Dipole :: "location \<Rightarrow> location \<Rightarrow> error + receiver" where
  "receivers_Dipole M N =
     (if M = N then Inl DegenerateElectrodeError
      else Inr \<lparr>M_location = M, N_location = N\<rparr>)"

definition sources_Dipole :: "receiver list \<Rightarrow> location \<Rightarrow> location \<Rightarrow> error + source" where
  "sources_Dipole rxs A B =
     (if A = B then Inl DegenerateElectrodeError
      else Inr \<lparr>receiver_list = rxs, A_location = A, B_location = B\<rparr>)"

subsection \<open>Define the survey\<close>

text \<open>
  \<^verbatim>\<open>
  source_list = []
  for ii in range(0, len(half_AB_separation)):
      A_location = np.r_[-half_AB_separation[ii], 0., 0.]
      B_location = np.r_[half_AB_separation[ii], 0., 0.]
      M_location = np.r_[-half_MN_separation[ii], 0., 0.]
      N_location = np.r_[half_MN_separation[ii], 0., 0.]
      receiver = dc.receivers.Dipole(M_location, N_location)
      receiver_list = [receiver]
      source = dc.sources.Dipole(receiver_list, A_location, B_location)
      source_list.append(source)
  survey = dc.Survey(source_list)
  \<close>
  The loop runs over the indices of \<open>half_AB_separation\<close>; reading
  \<open>half_MN_separation[ii]\<close> past its end raises IndexError.
\<close>

fun source_loop :: "real list \<Rightarrow> real list \<Rightarrow> nat list \<Rightarrow> source list \<Rightarrow> error + source list" where
  "source_loop ab mn [] source_list = Inr source_list"
| "source_loop ab mn (ii # iis) source_list =
     (if length ab \<le> ii then Inl IndexError
      else if length mn \<le> ii then Inl IndexError
      else
        (case receivers_Dipole (- (mn ! ii), 0, 0) (mn ! ii, 0, 0) of
           Inl e \<Rightarrow> Inl e
         | Inr receiver \<Rightarrow>
             (case sources_Dipole [receiver] (- (ab ! ii), 0, 0) (ab ! ii, 0, 0) of
                Inl e \<Rightarrow> Inl e
              | Inr source \<Rightarrow> source_loop ab mn iis (source_list @ [source]))))"

definition make_survey :: "real list \<Rightarrow> real list \<Rightarrow> error + survey" where
  "make_survey ab mn = source_loop ab mn [0..<length ab] []"

text \<open>The source that one pass of the loop builds from the pair (AB/2, MN/2).\<close>

definition sounding_source :: "real \<Rightarrow> real \<Rightarrow> source" where
  "sounding_source a m =
     \<lparr>receiver_list = [\<lparr>M_location = (- m, 0, 0), N_location = (m, 0, 0)\<rparr>],
      A_location = (- a, 0, 0), B_location = (a, 0, 0)\<rparr>"

subsection \<open>Define a 1D layered Earth\<close>

text \<open>
  \<^verbatim>\<open>
  mesh = TensorMesh([np.r_[layer_thicknesses, 5*layer_thicknesses[-1]]])
  x_min = np.min(resistivity_model)
  x_max = np.max(resistivity_model)
  \<close>
  The mesh has one cell per stored thickness and a last cell five times the last thickness.
  \<open>layer_thicknesses[-1]\<close> raises IndexError on an empty array, and \<open>np.min\<close> raises
  ValueError on an empty array. The plotting calls of the cell draw and return nothing.
\<close>

definition TensorMesh :: "real list \<Rightarrow> error + real list" where
  "TensorMesh thk = (if thk = [] then Inl IndexError else Inr (thk @ [5 * last thk]))"

definition np_min :: "real list \<Rightarrow> error + real" where
  "np_min xs = (if xs = [] then Inl ValueError else Inr (Min (set xs)))"

subsection \<open>The simulation library\<close>

text \<open>
  Modelled from the spec: the layer stack of section 4.1, whose code is in the simulation
  library and not among the sources. ``Constructed from an ordered resistivity list and a
  thicknesses list whose length is exactly one less than the resistivity list. Fails with
  InvalidModelError if thicknesses list length mismatches, or if any resistivity/thickness
  \<le> 0.'' The lengths are compared as integers, so that an empty resistivity list is a mismatch.
\<close>

record layer_stack =
  stack_resistivities :: "real list"
  stack_thicknesses :: "real list"

definition LayerStack :: "real list \<Rightarrow> real list \<Rightarrow> error + layer_stack" where
  "LayerStack rho thk =
     (if int (length thk) \<noteq> int (length rho) - 1 then Inl InvalidModelError
      else if list_ex (\<lambda>r. r \<le> 0) rho then Inl InvalidModelError
      else if list_ex (\<lambda>t. t \<le> 0) thk then Inl InvalidModelError
      else Inr \<lparr>stack_resistivities = rho, stack_thicknesses = thk\<rparr>)"

definition n_layers :: "layer_stack \<Rightarrow> nat" where
  "n_layers ls = length (stack_resistivities ls)"

text \<open>
  Modelled from the spec: the property mapping of section 4.7 (library code, not among the
  sources): identity and exponential-of-log, the identity failing with InvalidModelError on
  non-positive values. The argument is the number of mesh cells the mapping was built for.
\<close>

datatype mapping = IdentityMap nat | ExpMap nat

fun apply_mapping :: "mapping \<Rightarrow> real list \<Rightarrow> error + real list" where
  "apply_mapping (IdentityMap n) m =
     (if list_ex (\<lambda>v. v \<le> 0) m then Inl InvalidModelError else Inr m)"
| "apply_mapping (ExpMap n) m = Inr (map exp m)"

text \<open>
  The parts of the library the specification leaves open are parameters of the model:
  \<^item> \<open>potential\<close>: the Hankel transform engine applied to the kernel of a layer stack
    (sections 4.3 and 4.4), the potential of a unit point source at offset \<open>r\<close> with its
    prefactor; \<open>None\<close> when the kernel is not finite;
  \<^item> \<open>current\<close>: the source current I;
  \<^item> \<open>near_zero\<close>: the offset at or below which a geometry counts as degenerate (its absolute
    value is used);
  \<^item> \<open>sd_keyword\<close>, \<open>default_sd\<close>: the keyword under which \<open>make_synthetic_data\<close>
    takes the relative standard deviation, and its default;
  \<^item> \<open>keyword_strict\<close>: whether a keyword the function does not declare is a TypeError
    (no \<open>**kwargs\<close>) or is accepted and ignored;
  \<^item> \<open>draw\<close>: the standard normal samples the generator hands out in this run.
\<close>

record library =
  potential :: "layer_stack \<Rightarrow> real \<Rightarrow> real option"
  current :: real
  near_zero :: real
  sd_keyword :: string
  default_sd :: real
  keyword_strict :: bool
  draw :: "nat \<Rightarrow> real"

definition offset :: "location \<Rightarrow> location \<Rightarrow> real" where
  "offset P Q =
     (case P of (px, py, pz) \<Rightarrow> case Q of (qx, qy, qz) \<Rightarrow>
        sqrt ((px - qx)\<^sup>2 + (py - qy)\<^sup>2 + (pz - qz)\<^sup>2))"

text \<open>
  Modelled from the spec: the forward simulation orchestrator of section 4.5 (library code,
  not among the sources). For one source dipole (A, B) and one receiver dipole (M, N): the
  four offsets, the potentials of A (+I) and B (-I) at M and at N, the voltage
  V = V_M - V_N, the geometric factor G = (1/AM - 1/BM - 1/AN + 1/BN) / (2 pi), and the
  apparent resistivity V / (I G): section 2 has the orchestrator divide the voltage by the
  geometric factor, and this is the closed form whose quotient is the resistivity of a
  homogeneous half-space. An offset that is near zero, or a geometric factor by
  which one cannot divide, is a DegenerateGeometryError; a potential that is not finite is
  a NumericalInstabilityError; both carry the index of the configuration.
\<close>

definition geometric_factor :: "real \<Rightarrow> real \<Rightarrow> real \<Rightarrow> real \<Rightarrow> real" where
  "geometric_factor AM BM AN BN = (1 / AM - 1 / BM - 1 / AN + 1 / BN) / (2 * pi)"

definition apparent_resistivity ::
  "library \<Rightarrow> layer_stack \<Rightarrow> nat \<Rightarrow> location \<Rightarrow> location \<Rightarrow> location \<Rightarrow> location \<Rightarrow> error + real" where
  "apparent_resistivity lib ls idx A B M N =
     (let AM = offset A M; BM = offset B M; AN = offset A N; BN = offset B N;
          tol = \<bar>near_zero lib\<bar>
      in if AM \<le> tol \<or> BM \<le> tol \<or> AN \<le> tol \<or> BN \<le> tol
         then Inl (DegenerateGeometryError idx)
         else
           (case (potential lib ls AM, potential lib ls BM,
                  potential lib ls AN, potential lib ls BN) of
              (Some pAM, Some pBM, Some pAN, Some pBN) \<Rightarrow>
                (let I = current lib;
                     V_M = I * pAM - I * pBM;
                     V_N = I * pAN - I * pBN;
                     V = V_M - V_N;
                     G = geometric_factor AM BM AN BN
                 in if I * G = 0 then Inl (DegenerateGeometryError idx)
                    else Inr (V / (I * G)))
            | _ \<Rightarrow> Inl (NumericalInstabilityError idx)))"

fun source_data ::
  "library \<Rightarrow> layer_stack \<Rightarrow> nat \<Rightarrow> location \<Rightarrow> location \<Rightarrow> receiver list \<Rightarrow> error + real list" where
  "source_data lib ls idx A B [] = Inr []"
| "source_data lib ls idx A B (rx # rxs) =
     (case apparent_resistivity lib ls idx A B (M_location rx) (N_location rx) of
        Inl e \<Rightarrow> Inl e
      | Inr d \<Rightarrow>
          (case source_data lib ls idx A B rxs of
             Inl e \<Rightarrow> Inl e
           | Inr ds \<Rightarrow> Inr (d # ds)))"

fun dpred_from :: "library \<Rightarrow> layer_stack \<Rightarrow> nat \<Rightarrow> source list \<Rightarrow> error + real list" where
  "dpred_from lib ls idx [] = Inr []"
| "dpred_from lib ls idx (src # srcs) =
     (case source_data lib ls idx (A_location src) (B_location src) (receiver_list src) of
        Inl e \<Rightarrow> Inl e
      | Inr ds \<Rightarrow>
          (case dpred_from lib ls (Suc idx) srcs of
             Inl e \<Rightarrow> Inl e
           | Inr rest \<Rightarrow> Inr (ds @ rest)))"

definition dpred :: "library \<Rightarrow> layer_stack \<Rightarrow> survey \<Rightarrow> error + real list" where
  "dpred lib ls srcs = dpred_from lib ls 0 srcs"

text \<open>
  Modelled from the spec: the noise model of section 4.6 (library code, not among the
  sources). ``Each value is perturbed by value (1 + eps), eps ~ Normal(0, sigma),
  independently per datum, and attaches uncertainty = sigma |value| to each record. Disabled
  entirely (sigma = 0 or flag off) leaves values unperturbed and omits uncertainty.'' The
  sample for datum \<open>i\<close> is \<open>sigma * z i\<close> for the standard normal draw \<open>z i\<close>.
\<close>

record synthetic_data =
  dobs :: "real list"
  uncertainty :: "real list option"

definition noise_model :: "(nat \<Rightarrow> real) \<Rightarrow> real \<Rightarrow> bool \<Rightarrow> real list \<Rightarrow> synthetic_data" where
  "noise_model z sigma flag vals =
     (if flag \<and> sigma \<noteq> 0
      then \<lparr>dobs = map (\<lambda>i. vals ! i * (1 + sigma * z i)) [0..<length vals],
            uncertainty = Some (map (\<lambda>v. sigma * \<bar>v\<bar>) vals)\<rparr>
      else \<lparr>dobs = vals, uncertainty = None\<rparr>)"

text \<open>
  Modelled from the spec: the simulation object and \<open>make_synthetic_data\<close> (library code,
  not among the sources), after the data flow of section 2 and the control flags of
  section 6. The keywords of the call are bound by name, as Python does: the relative standard deviation is read under
  \<open>sd_keyword\<close>, the noise toggle under \<open>add_noise\<close>, each with its default when the call
  does not give it. The model vector goes through the mapping into the layer stack, the
  orchestrator predicts the data in survey order, and the noise model produces the data
  object. \<open>data_type\<close> is recorded only: apparent resistivity is the one data type in scope.
\<close>

datatype pyval = PyFloat real | PyBool bool

record simulation =
  survey :: survey
  rhoMap :: mapping
  thicknesses :: "real list"
  data_type :: string

definition DCSimulation_1D :: "survey \<Rightarrow> mapping \<Rightarrow> real list \<Rightarrow> string \<Rightarrow> simulation" where
  "DCSimulation_1D srcs model_map thk dt =
     \<lparr>survey = srcs, rhoMap = model_map, thicknesses = thk, data_type = dt\<rparr>"

definition keyword_float :: "(string \<times> pyval) list \<Rightarrow> string \<Rightarrow> real \<Rightarrow> real" where
  "keyword_float kwargs k dflt = (case map_of kwargs k of Some (PyFloat v) \<Rightarrow> v | _ \<Rightarrow> dflt)"

definition keyword_bool :: "(string \<times> pyval) list \<Rightarrow> string \<Rightarrow> bool \<Rightarrow> bool" where
  "keyword_bool kwargs k dflt = (case map_of kwargs k of Some (PyBool b) \<Rightarrow> b | _ \<Rightarrow> dflt)"

definition make_synthetic_data ::
  "library \<Rightarrow> simulation \<Rightarrow> real list \<Rightarrow> (string \<times> pyval) list \<Rightarrow> error + synthetic_data" where
  "make_synthetic_data lib sim m kwargs =
     (if keyword_strict lib
         \<and> list_ex (\<lambda>(k, v). k \<noteq> sd_keyword lib \<and> k \<noteq> ''add_noise'') kwargs
      then Inl TypeError
      else
        (case apply_mapping (rhoMap sim) m of
           Inl e \<Rightarrow> Inl e
         | Inr rho \<Rightarrow>
             (case LayerStack rho (thicknesses sim) of
                Inl e \<Rightarrow> Inl e
              | Inr ls \<Rightarrow>
                  (case dpred lib ls (survey sim) of
                     Inl e \<Rightarrow> Inl e
                   | Inr dclean \<Rightarrow>
                       Inr (noise_model (draw lib)
                              (keyword_float kwargs (sd_keyword lib) (default_sd lib))
                              (keyword_bool kwargs ''add_noise'' False)
                              dclean)))))"

subsection \<open>Write the data\<close>

text \<open>
  \<^verbatim>\<open>
  out_dat = np.c_[half_AB_separation, half_MN_separation, data_obj.dobs]
  columns = ['AB/2 (m)','MN/2 (m)','App. Res. (Ohm m)']
  if add_noise:
      columns += ['uncertainty (Ohm m)']
      out_dat = np.c_[out_dat, data_obj.uncertainty]
  df = pd.DataFrame(out_dat, columns=columns)
  df.to_csv(filename, index=False)
  \<close>
  \<open>np.c_\<close> puts one-dimensional arrays side by side as the columns of a matrix and raises
  ValueError when their lengths differ; appending a column to a matrix needs one entry per
  row, and an absent uncertainty (\<open>None\<close>) does not have that shape. \<open>DataFrame\<close> raises
  ValueError when the number of column names is not the width of the matrix. The file name
  only says where the table is written and is left out.
\<close>

definition np_c3 :: "real list \<Rightarrow> real list \<Rightarrow> real list \<Rightarrow> error + real list list" where
  "np_c3 a b c =
     (if length a = length b \<and> length b = length c
      then Inr (map (\<lambda>i. [a ! i, b ! i, c ! i]) [0..<length a])
      else Inl ValueError)"

definition np_c_append :: "real list list \<Rightarrow> real list option \<Rightarrow> error + real list list" where
  "np_c_append mat col =
     (case col of
        None \<Rightarrow> Inl ValueError
      | Some c \<Rightarrow>
          (if length c = length mat
           then Inr (map (\<lambda>i. mat ! i @ [c ! i]) [0..<length mat])
           else Inl ValueError))"

record dataframe =
  columns :: "string list"
  records :: "real list list"

definition DataFrame :: "real list list \<Rightarrow> string list \<Rightarrow> error + dataframe" where
  "DataFrame mat cols =
     (if list_all (\<lambda>row. length row = length cols) mat
      then Inr \<lparr>columns = cols, records = mat\<rparr>
      else Inl ValueError)"

text \<open>
  The written file: a header line and one line per record. With \<open>index=True\<close> pandas puts
  the row number in front of every line and an empty name in front of the header.
\<close>

record csv =
  header :: "string list"
  lines :: "real list list"

definition to_csv :: "dataframe \<Rightarrow> bool \<Rightarrow> csv" where
  "to_csv df index =
     (if index
      then \<lparr>header = [] # columns df,
            lines = map (\<lambda>i. real i # records df ! i) [0..<length (records df)]\<rparr>
      else \<lparr>header = columns df, lines = records df\<rparr>)"

subsection \<open>The notebook, from the user parameters to the written file\<close>

text \<open>
  \<^verbatim>\<open>
  model_map = maps.IdentityMap(mesh)
  simulation = dc.simulation_1d.DCSimulation_1D(
      survey=survey, rhoMap=model_map, thicknesses=layer_thicknesses,
      data_type="apparent_resistivity")
  data_obj = simulation.make_synthetic_data(
      resistivity_model, standard_devation=standard_deviation, add_noise=add_noise)
  \<close>
  The cells run in the order of the notebook: the survey, the mesh and the range of the
  model, the simulation and its data, the table. The keyword of the standard deviation is
  spelt as the notebook spells it. A run that gets through returns the survey, the data
  object and the written table.
\<close>

record outcome =
  out_survey :: survey
  data_obj :: synthetic_data
  written :: csv

definition notebook ::
  "library \<Rightarrow> real list \<Rightarrow> real list \<Rightarrow> real list \<Rightarrow> real list \<Rightarrow> bool \<Rightarrow> real \<Rightarrow> error + outcome" where
  "notebook lib ab mn model thk noise sd =
     (case make_survey ab mn of
        Inl e \<Rightarrow> Inl e
      | Inr srcs \<Rightarrow>
     (case TensorMesh thk of
        Inl e \<Rightarrow> Inl e
      | Inr mesh \<Rightarrow>
     (case np_min model of
        Inl e \<Rightarrow> Inl e
      | Inr x_min \<Rightarrow>
     (case make_synthetic_data lib
             (DCSimulation_1D srcs (IdentityMap (length mesh)) thk ''apparent_resistivity'')
             model
             [(''standard_devation'', PyFloat sd), (''add_noise'', PyBool noise)] of
        Inl e \<Rightarrow> Inl e
      | Inr data \<Rightarrow>
     (case np_c3 ab mn (dobs data) of
        Inl e \<Rightarrow> Inl e
      | Inr out_dat \<Rightarrow>
     (case (if noise then np_c_append out_dat (uncertainty data) else Inr out_dat) of
        Inl e \<Rightarrow> Inl e
      | Inr out_dat' \<Rightarrow>
     (case DataFrame out_dat'
             ([''AB/2 (m)'', ''MN/2 (m)'', ''App. Res. (Ohm m)'']
              @ (if noise then [''uncertainty (Ohm m)''] else [])) of
        Inl e \<Rightarrow> Inl e
      | Inr df \<Rightarrow>
          Inr \<lparr>out_survey = srcs, data_obj = data, written = to_csv df False\<rparr>)))))))"

subsection \<open>A library instance for running the model\<close>

text \<open>
  To run the notebook on concrete inputs the parameters of the library have to be fixed.
  The instance below takes the exact potential of a homogeneous half-space with the
  resistivity of the top layer, \<open>rho / (2 pi r)\<close>, a unit current, no tolerance on
  offsets, the keyword \<open>standard_deviation\<close> with default 0.05, lenient keywords, and a
  generator whose every draw is one standard deviation. (A layer stack that was
  constructed has a top layer.)
\<close>

definition halfspace_potential :: "layer_stack \<Rightarrow> real \<Rightarrow> real option" where
  "halfspace_potential ls r = Some (hd (stack_resistivities ls) / (2 * pi * r))"

definition halfspace_library :: library where
  "halfspace_library =
     \<lparr>potential = halfspace_potential, current = 1, near_zero = 0,
      sd_keyword = ''standard_deviation'', default_sd = 0.05,
      keyword_strict = False, draw = (\<lambda>i. 1)\<rparr>"

section \<open>Properties of the survey loop\<close>

lemma source_loop_Inr:
  assumes "source_loop ab mn iis acc = Inr srcs"
  shows "srcs = acc @ map (\<lambda>i. sounding_source (ab ! i) (mn ! i)) iis
         \<and> (\<forall>i \<in> set iis. i < length ab \<and> i < length mn \<and> ab ! i \<noteq> 0 \<and> mn ! i \<noteq> 0)"
  using assms
proof (induction iis arbitrary: acc)
  case Nil
  then show ?case by simp
next
  case (Cons ii iis)
  from Cons.prems have in_range: "ii < length ab" "ii < length mn"
    by (auto split: if_splits)
  from Cons.prems in_range have nz: "mn ! ii \<noteq> 0" "ab ! ii \<noteq> 0"
    by (auto simp: receivers_Dipole_def sources_Dipole_def split: if_splits)
  from Cons.prems in_range nz
  have "source_loop ab mn iis (acc @ [sounding_source (ab ! ii) (mn ! ii)]) = Inr srcs"
    by (simp add: receivers_Dipole_def sources_Dipole_def sounding_source_def)
  from Cons.IH [OF this] in_range nz show ?case by simp
qed

lemma source_loop_ok:
  assumes "\<forall>i \<in> set iis. i < length ab \<and> i < length mn \<and> ab ! i \<noteq> 0 \<and> mn ! i \<noteq> 0"
  shows "source_loop ab mn iis acc = Inr (acc @ map (\<lambda>i. sounding_source (ab ! i) (mn ! i)) iis)"
  using assms
proof (induction iis arbitrary: acc)
  case Nil
  then show ?case by simp
next
  case (Cons ii iis)
  then show ?case
    by (simp add: receivers_Dipole_def sources_Dipole_def sounding_source_def)
qed

lemma map_nth_zip:
  assumes "length xs = length ys"
  shows "map (\<lambda>i. f (xs ! i) (ys ! i)) [0..<length xs] = map (\<lambda>(x, y). f x y) (zip xs ys)"
  using assms by (intro nth_equalityI) simp_all

lemma make_survey_ok:
  assumes "length mn = length ab" and "list_all (\<lambda>x. x \<noteq> 0) ab" and "list_all (\<lambda>x. x \<noteq> 0) mn"
  shows "make_survey ab mn = Inr (map (\<lambda>(a, m). sounding_source a m) (zip ab mn))"
proof -
  have "\<forall>i \<in> set [0..<length ab]. i < length ab \<and> i < length mn \<and> ab ! i \<noteq> 0 \<and> mn ! i \<noteq> 0"
    using assms by (simp add: list_all_length)
  then have "make_survey ab mn =
      Inr (map (\<lambda>i. sounding_source (ab ! i) (mn ! i)) [0..<length ab])"
    unfolding make_survey_def by (simp add: source_loop_ok)
  then show ?thesis
    using assms(1) by (simp add: map_nth_zip)
qed

lemma make_survey_Inr:
  assumes "make_survey ab mn = Inr srcs"
  shows "length srcs = length ab" and "length ab \<le> length mn"
    and "\<And>i. i < length ab \<Longrightarrow> srcs ! i = sounding_source (ab ! i) (mn ! i)"
    and "\<And>i. i < length ab \<Longrightarrow> ab ! i \<noteq> 0 \<and> mn ! i \<noteq> 0"
proof -
  from assms have *: "srcs = map (\<lambda>i. sounding_source (ab ! i) (mn ! i)) [0..<length ab]"
    and **: "\<forall>i \<in> set [0..<length ab]. i < length ab \<and> i < length mn \<and> ab ! i \<noteq> 0 \<and> mn ! i \<noteq> 0"
    unfolding make_survey_def using source_loop_Inr [of ab mn "[0..<length ab]" "[]" srcs]
    by simp_all
  from * show "length srcs = length ab" by simp
  from ** show "length ab \<le> length mn"
    by (cases "length ab") (auto dest: bspec [where x = "length ab - 1"])
  show "\<And>i. i < length ab \<Longrightarrow> srcs ! i = sounding_source (ab ! i) (mn ! i)"
    using * by simp
  show "\<And>i. i < length ab \<Longrightarrow> ab ! i \<noteq> 0 \<and> mn ! i \<noteq> 0"
    using ** by simp
qed

lemma source_loop_Inl:
  assumes "source_loop ab mn iis acc = Inl e"
  shows "(e = IndexError \<and> (\<exists>i \<in> set iis. length ab \<le> i \<or> length mn \<le> i))
       \<or> (e = DegenerateElectrodeError
            \<and> (\<exists>i \<in> set iis. i < length ab \<and> i < length mn \<and> (ab ! i = 0 \<or> mn ! i = 0)))"
  using assms
proof (induction iis arbitrary: acc)
  case Nil
  then show ?case by simp
next
  case (Cons ii iis)
  show ?case
  proof (cases "length ab \<le> ii \<or> length mn \<le> ii")
    case True
    with Cons.prems show ?thesis by (auto split: if_splits)
  next
    case in_range: False
    show ?thesis
    proof (cases "ab ! ii = 0 \<or> mn ! ii = 0")
      case True
      with Cons.prems in_range show ?thesis
        by (auto simp: receivers_Dipole_def sources_Dipole_def split: if_splits)
    next
      case False
      with Cons.prems in_range
      have "source_loop ab mn iis (acc @ [sounding_source (ab ! ii) (mn ! ii)]) = Inl e"
        by (simp add: receivers_Dipole_def sources_Dipole_def sounding_source_def)
      from Cons.IH [OF this] show ?thesis by auto
    qed
  qed
qed

lemma make_survey_degenerate:
  assumes "length mn = length ab" and "i < length ab" and "ab ! i = 0 \<or> mn ! i = 0"
  shows "make_survey ab mn = Inl DegenerateElectrodeError"
proof (cases "make_survey ab mn")
  case (Inr srcs)
  from make_survey_Inr(4) [OF this assms(2)] assms(3) show ?thesis by simp
next
  case (Inl e)
  from source_loop_Inl [OF Inl [unfolded make_survey_def]] assms(1) Inl show ?thesis
    by auto
qed

lemma sounding_source_receiver:
  "receiver_list (sounding_source a m) = [\<lparr>M_location = (- m, 0, 0), N_location = (m, 0, 0)\<rparr>]"
  "A_location (sounding_source a m) = (- a, 0, 0)"
  "B_location (sounding_source a m) = (a, 0, 0)"
  by (simp_all add: sounding_source_def)

subsection \<open>The survey of the notebook\<close>

lemma notebook_survey:
  "make_survey half_AB_separation half_MN_separation =
     Inr (map (\<lambda>(a, m). sounding_source a m) (zip half_AB_separation half_MN_separation))"
  by (rule make_survey_ok) (simp_all add: half_AB_separation_def half_MN_separation_def)

text \<open>
  C9. The survey the notebook constructs has 29 configurations; configuration \<open>i\<close> has
  A = (-AB/2, 0, 0), B = (AB/2, 0, 0), M = (-MN/2, 0, 0), N = (MN/2, 0, 0) with
  0 < MN/2 < AB/2, so A differs from B and M differs from N everywhere, and the construction
  does not fail with DegenerateElectrodeError (it returns the survey).
\<close>

theorem notebook_survey_not_degenerate:
  "\<exists>srcs. make_survey half_AB_separation half_MN_separation = Inr srcs
     \<and> make_survey half_AB_separation half_MN_separation \<noteq> Inl DegenerateElectrodeError
     \<and> length srcs = 29
     \<and> (\<forall>i<29.
          A_location (srcs ! i) = (- (half_AB_separation ! i), 0, 0)
        \<and> B_location (srcs ! i) = (half_AB_separation ! i, 0, 0)
        \<and> receiver_list (srcs ! i) =
            [\<lparr>M_location = (- (half_MN_separation ! i), 0, 0),
              N_location = (half_MN_separation ! i, 0, 0)\<rparr>]
        \<and> 0 < half_MN_separation ! i
        \<and> half_MN_separation ! i < half_AB_separation ! i
        \<and> A_location (srcs ! i) \<noteq> B_location (srcs ! i)
        \<and> (\<forall>r \<in> set (receiver_list (srcs ! i)). M_location r \<noteq> N_location r))"
proof -
  let ?srcs = "map (\<lambda>(a, m). sounding_source a m) (zip half_AB_separation half_MN_separation)"
  have len: "length half_AB_separation = 29" "length half_MN_separation = 29"
    by (simp_all add: half_AB_separation_def half_MN_separation_def)
  have order: "list_all (\<lambda>(a, m). 0 < m \<and> m < a) (zip half_AB_separation half_MN_separation)"
    by (simp add: half_AB_separation_def half_MN_separation_def)
  have pos: "0 < half_MN_separation ! i \<and> half_MN_separation ! i < half_AB_separation ! i"
    if "i < 29" for i
    using order that len by (simp add: list_all_length)
  have "\<forall>i<29.
          A_location (?srcs ! i) = (- (half_AB_separation ! i), 0, 0)
        \<and> B_location (?srcs ! i) = (half_AB_separation ! i, 0, 0)
        \<and> receiver_list (?srcs ! i) =
            [\<lparr>M_location = (- (half_MN_separation ! i), 0, 0),
              N_location = (half_MN_separation ! i, 0, 0)\<rparr>]
        \<and> 0 < half_MN_separation ! i
        \<and> half_MN_separation ! i < half_AB_separation ! i
        \<and> A_location (?srcs ! i) \<noteq> B_location (?srcs ! i)
        \<and> (\<forall>r \<in> set (receiver_list (?srcs ! i)). M_location r \<noteq> N_location r)"
  proof (intro allI impI)
    fix i :: nat
    assume i: "i < 29"
    from pos [OF i] have "half_MN_separation ! i \<noteq> 0" "half_AB_separation ! i \<noteq> 0"
      by auto
    with i len pos [OF i] show
         "A_location (?srcs ! i) = (- (half_AB_separation ! i), 0, 0)
        \<and> B_location (?srcs ! i) = (half_AB_separation ! i, 0, 0)
        \<and> receiver_list (?srcs ! i) =
            [\<lparr>M_location = (- (half_MN_separation ! i), 0, 0),
              N_location = (half_MN_separation ! i, 0, 0)\<rparr>]
        \<and> 0 < half_MN_separation ! i
        \<and> half_MN_separation ! i < half_AB_separation ! i
        \<and> A_location (?srcs ! i) \<noteq> B_location (?srcs ! i)
        \<and> (\<forall>r \<in> set (receiver_list (?srcs ! i)). M_location r \<noteq> N_location r)"
      by (simp add: sounding_source_def)
  qed
  moreover have "length ?srcs = 29"
    using len by simp
  moreover have "make_survey half_AB_separation half_MN_separation \<noteq> Inl DegenerateElectrodeError"
    by (simp add: notebook_survey)
  ultimately show ?thesis
    using notebook_survey by blast
qed

theorem notebook_survey_not_degenerate_witness:
  "\<exists>srcs. make_survey half_AB_separation half_MN_separation = Inr srcs
     \<and> A_location (srcs ! 0) = (- 5, 0, 0)
     \<and> B_location (srcs ! 0) = (5, 0, 0)
     \<and> receiver_list (srcs ! 0) = [\<lparr>M_location = (- 1, 0, 0), N_location = (1, 0, 0)\<rparr>]
     \<and> A_location (srcs ! 28) = (- 400, 0, 0)
     \<and> B_location (srcs ! 28) = (400, 0, 0)
     \<and> receiver_list (srcs ! 28) = [\<lparr>M_location = (- 30, 0, 0), N_location = (30, 0, 0)\<rparr>]"
proof -
  from notebook_survey_not_degenerate obtain srcs where
    s: "make_survey half_AB_separation half_MN_separation = Inr srcs"
    and a: "\<forall>i<29.
          A_location (srcs ! i) = (- (half_AB_separation ! i), 0, 0)
        \<and> B_location (srcs ! i) = (half_AB_separation ! i, 0, 0)
        \<and> receiver_list (srcs ! i) =
            [\<lparr>M_location = (- (half_MN_separation ! i), 0, 0),
              N_location = (half_MN_separation ! i, 0, 0)\<rparr>]
        \<and> 0 < half_MN_separation ! i
        \<and> half_MN_separation ! i < half_AB_separation ! i
        \<and> A_location (srcs ! i) \<noteq> B_location (srcs ! i)
        \<and> (\<forall>r \<in> set (receiver_list (srcs ! i)). M_location r \<noteq> N_location r)"
    by blast
  have "(0::nat) < 29" "(28::nat) < 29" by simp_all
  with a have
    "A_location (srcs ! 0) = (- (half_AB_separation ! 0), 0, 0)
     \<and> B_location (srcs ! 0) = (half_AB_separation ! 0, 0, 0)
     \<and> receiver_list (srcs ! 0) =
         [\<lparr>M_location = (- (half_MN_separation ! 0), 0, 0),
           N_location = (half_MN_separation ! 0, 0, 0)\<rparr>]"
    "A_location (srcs ! 28) = (- (half_AB_separation ! 28), 0, 0)
     \<and> B_location (srcs ! 28) = (half_AB_separation ! 28, 0, 0)
     \<and> receiver_list (srcs ! 28) =
         [\<lparr>M_location = (- (half_MN_separation ! 28), 0, 0),
           N_location = (half_MN_separation ! 28, 0, 0)\<rparr>]"
    by blast+
  with s show ?thesis
    by (simp add: half_AB_separation_def half_MN_separation_def)
qed

section \<open>Properties of the simulation library\<close>

subsection \<open>Offsets and the geometric factor\<close>

lemma offset_sym: "offset P Q = offset Q P"
  by (cases P, cases Q) (simp add: offset_def power2_commute)

lemma geometric_factor_swap: "geometric_factor AM AN BM BN = geometric_factor AM BM AN BN"
  by (simp add: geometric_factor_def)

lemma sounding_offsets:
  assumes "0 < m" "m < a"
  shows "offset (- a, 0, 0) (- m, 0, 0) = a - m" "offset (a, 0, 0) (- m, 0, 0) = a + m"
    "offset (- a, 0, 0) (m, 0, 0) = a + m" "offset (a, 0, 0) (m, 0, 0) = a - m"
  using assms by (simp_all add: offset_def)

lemma sounding_geometric_factor_pos:
  assumes "0 < x" "x < y"
  shows "0 < geometric_factor x y y x"
proof -
  have "1 / y < 1 / x"
    using assms by (intro divide_strict_left_mono) auto
  then have "0 < 1 / x - 1 / y - 1 / y + 1 / x"
    by simp
  then show ?thesis
    unfolding geometric_factor_def by simp
qed

subsection \<open>A sounding over the exact half-space potential\<close>

lemma halfspace_voltage:
  "I * (rho / (2 * pi * x)) - I * (rho / (2 * pi * y))
     - (I * (rho / (2 * pi * y)) - I * (rho / (2 * pi * x)))
   = rho * (I * geometric_factor x y y x)"
  unfolding geometric_factor_def by (simp add: field_simps)

text \<open>
  With the exact potential of a half-space, a non-zero current and a tolerance below the
  smallest offset, every symmetric sounding returns the resistivity of the top layer.
\<close>

lemma halfspace_sounding:
  assumes "0 < m" "m < a"
    and "potential lib = halfspace_potential" "current lib \<noteq> 0" "\<bar>near_zero lib\<bar> < a - m"
  shows "apparent_resistivity lib ls idx (- a, 0, 0) (a, 0, 0) (- m, 0, 0) (m, 0, 0)
         = Inr (hd (stack_resistivities ls))"
proof -
  define rho where "rho = hd (stack_resistivities ls)"
  define I where "I = current lib"
  define G where "G = geometric_factor (a - m) (a + m) (a + m) (a - m)"
  define V where "V = I * (rho / (2 * pi * (a - m))) - I * (rho / (2 * pi * (a + m)))
     - (I * (rho / (2 * pi * (a + m))) - I * (rho / (2 * pi * (a - m))))"
  have "0 < G"
    unfolding G_def using assms(1,2) by (intro sounding_geometric_factor_pos) simp_all
  with assms(4) have IG: "I * G \<noteq> 0"
    unfolding I_def by simp
  have V: "V = rho * (I * G)"
    unfolding V_def G_def by (rule halfspace_voltage)
  have tol: "\<not> (a - m \<le> \<bar>near_zero lib\<bar> \<or> a + m \<le> \<bar>near_zero lib\<bar>
              \<or> a + m \<le> \<bar>near_zero lib\<bar> \<or> a - m \<le> \<bar>near_zero lib\<bar>)"
    using assms by simp
  have "apparent_resistivity lib ls idx (- a, 0, 0) (a, 0, 0) (- m, 0, 0) (m, 0, 0)
        = Inr (V / (I * G))"
    unfolding apparent_resistivity_def sounding_offsets [OF assms(1,2)] Let_def assms(3)
      halfspace_potential_def rho_def [symmetric] I_def [symmetric] G_def [symmetric]
    using tol IG by (simp only: if_False prod.case option.case V_def)
  with IG V show ?thesis
    by (simp add: rho_def)
qed

lemma halfspace_library_fields:
  "potential halfspace_library = halfspace_potential"
  "current halfspace_library = 1"
  "near_zero halfspace_library = 0"
  "sd_keyword halfspace_library = ''standard_deviation''"
  "default_sd halfspace_library = 0.05"
  "keyword_strict halfspace_library = False"
  "draw halfspace_library = (\<lambda>i. 1)"
  by (simp_all add: halfspace_library_def)

subsection \<open>Predicted data in survey order\<close>

lemma dpred_from_Inr:
  assumes "dpred_from lib ls k srcs = Inr ds"
    and "\<forall>s \<in> set srcs. \<exists>rx. receiver_list s = [rx]"
  shows "length ds = length srcs
     \<and> (\<forall>i<length srcs. \<forall>rx. receiver_list (srcs ! i) = [rx] \<longrightarrow>
          apparent_resistivity lib ls (k + i) (A_location (srcs ! i)) (B_location (srcs ! i))
            (M_location rx) (N_location rx) = Inr (ds ! i))"
  using assms
proof (induction srcs arbitrary: k ds)
  case Nil
  then show ?case by simp
next
  case (Cons s srcs)
  from Cons.prems(2) obtain rx0 where rx0: "receiver_list s = [rx0]"
    by auto
  from Cons.prems(1) rx0 obtain d rest where
    d: "apparent_resistivity lib ls k (A_location s) (B_location s)
          (M_location rx0) (N_location rx0) = Inr d"
    and rest: "dpred_from lib ls (Suc k) srcs = Inr rest"
    and ds: "ds = d # rest"
    by (auto split: sum.splits)
  from Cons.prems(2) have "\<forall>s \<in> set srcs. \<exists>rx. receiver_list s = [rx]"
    by simp
  from Cons.IH [OF rest this] have
    len: "length rest = length srcs"
    and ih: "\<And>i rx. i < length srcs \<Longrightarrow> receiver_list (srcs ! i) = [rx] \<Longrightarrow>
          apparent_resistivity lib ls (Suc k + i) (A_location (srcs ! i)) (B_location (srcs ! i))
            (M_location rx) (N_location rx) = Inr (rest ! i)"
    by blast+
  show ?case
  proof (intro conjI allI impI)
    show "length ds = length (s # srcs)"
      using len ds by simp
  next
    fix i rx
    assume i: "i < length (s # srcs)" and rx: "receiver_list ((s # srcs) ! i) = [rx]"
    show "apparent_resistivity lib ls (k + i) (A_location ((s # srcs) ! i))
            (B_location ((s # srcs) ! i)) (M_location rx) (N_location rx) = Inr (ds ! i)"
    proof (cases i)
      case 0
      with rx rx0 d ds show ?thesis by simp
    next
      case (Suc j)
      with i rx ih [of j rx] ds show ?thesis by simp
    qed
  qed
qed

subsection \<open>The noise model and the keywords of the call\<close>

lemma noise_model_dobs:
  "length (dobs (noise_model z sigma flag vals)) = length vals"
  "i < length vals \<Longrightarrow> dobs (noise_model z sigma flag vals) ! i =
     (if flag \<and> sigma \<noteq> 0 then vals ! i * (1 + sigma * z i) else vals ! i)"
  by (simp_all add: noise_model_def)

lemma notebook_keywords:
  "keyword_float [(''standard_devation'', PyFloat sd), (''add_noise'', PyBool noise)] k dflt =
     (if k = ''standard_devation'' then sd else dflt)"
  "keyword_bool [(''standard_devation'', PyFloat sd), (''add_noise'', PyBool noise)]
     ''add_noise'' False = noise"
  by (simp_all add: keyword_float_def keyword_bool_def)

lemma make_synthetic_data_Inr:
  assumes "make_synthetic_data lib (DCSimulation_1D srcs (IdentityMap n) thk dt) m kwargs = Inr data"
  shows "\<exists>ls dclean. LayerStack m thk = Inr ls \<and> dpred lib ls srcs = Inr dclean
           \<and> data = noise_model (draw lib) (keyword_float kwargs (sd_keyword lib) (default_sd lib))
                      (keyword_bool kwargs ''add_noise'' False) dclean"
  using assms
  by (auto simp: make_synthetic_data_def DCSimulation_1D_def split: if_splits sum.splits)

lemma make_synthetic_data_misspelt:
  assumes "sd_keyword lib \<noteq> ''standard_devation''"
  shows "make_synthetic_data lib sim m
           [(''standard_devation'', PyFloat sd1), (''add_noise'', PyBool noise)]
       = make_synthetic_data lib sim m
           [(''standard_devation'', PyFloat sd2), (''add_noise'', PyBool noise)]"
  using assms by (simp add: make_synthetic_data_def notebook_keywords split: sum.splits)

lemma identity_mapping_invalid:
  assumes "LayerStack m thk = Inl InvalidModelError" and "\<not> keyword_strict lib"
  shows "make_synthetic_data lib (DCSimulation_1D srcs (IdentityMap n) thk dt) m kwargs
         = Inl InvalidModelError"
  using assms by (simp add: make_synthetic_data_def DCSimulation_1D_def)

section \<open>Properties of the notebook run\<close>

lemma notebook_Inr:
  assumes "notebook lib ab mn model thk noise sd = Inr out"
  shows "make_survey ab mn = Inr (out_survey out)"
    and "thk \<noteq> []" and "model \<noteq> []"
    and "make_synthetic_data lib
           (DCSimulation_1D (out_survey out) (IdentityMap (length thk + 1)) thk
              ''apparent_resistivity'')
           model [(''standard_devation'', PyFloat sd), (''add_noise'', PyBool noise)]
         = Inr (data_obj out)"
    and "length mn = length ab" and "length (dobs (data_obj out)) = length ab"
    and "header (written out) =
           [''AB/2 (m)'', ''MN/2 (m)'', ''App. Res. (Ohm m)'']
           @ (if noise then [''uncertainty (Ohm m)''] else [])"
    and "\<not> noise \<Longrightarrow> lines (written out) =
           map (\<lambda>i. [ab ! i, mn ! i, dobs (data_obj out) ! i]) [0..<length ab]"
    and "noise \<Longrightarrow> \<exists>us. uncertainty (data_obj out) = Some us \<and> length us = length ab
           \<and> lines (written out) =
               map (\<lambda>i. [ab ! i, mn ! i, dobs (data_obj out) ! i, us ! i]) [0..<length ab]"
proof -
  from assms obtain srcs mesh x_min data out_dat out_dat' df where
    s: "make_survey ab mn = Inr srcs"
    and m: "TensorMesh thk = Inr mesh"
    and x: "np_min model = Inr x_min"
    and d: "make_synthetic_data lib
              (DCSimulation_1D srcs (IdentityMap (length mesh)) thk ''apparent_resistivity'')
              model [(''standard_devation'', PyFloat sd), (''add_noise'', PyBool noise)] = Inr data"
    and c: "np_c3 ab mn (dobs data) = Inr out_dat"
    and c': "(if noise then np_c_append out_dat (uncertainty data) else Inr out_dat) = Inr out_dat'"
    and f: "DataFrame out_dat'
              ([''AB/2 (m)'', ''MN/2 (m)'', ''App. Res. (Ohm m)'']
               @ (if noise then [''uncertainty (Ohm m)''] else [])) = Inr df"
    and out: "out = \<lparr>out_survey = srcs, data_obj = data, written = to_csv df False\<rparr>"
    unfolding notebook_def by (auto split: sum.splits)
  from m have thk: "thk \<noteq> []" and mesh: "length mesh = length thk + 1"
    by (auto simp: TensorMesh_def split: if_splits)
  from x have model: "model \<noteq> []"
    by (auto simp: np_min_def split: if_splits)
  from c have len: "length mn = length ab" "length (dobs data) = length ab"
    and out_dat: "out_dat = map (\<lambda>i. [ab ! i, mn ! i, dobs data ! i]) [0..<length ab]"
    by (auto simp: np_c3_def split: if_splits)
  from f have df: "df = \<lparr>columns = [''AB/2 (m)'', ''MN/2 (m)'', ''App. Res. (Ohm m)'']
               @ (if noise then [''uncertainty (Ohm m)''] else []), records = out_dat'\<rparr>"
    by (auto simp: DataFrame_def split: if_splits)
  show "make_survey ab mn = Inr (out_survey out)" using s out by simp
  show "thk \<noteq> []" by (rule thk)
  show "model \<noteq> []" by (rule model)
  show "make_synthetic_data lib
           (DCSimulation_1D (out_survey out) (IdentityMap (length thk + 1)) thk
              ''apparent_resistivity'')
           model [(''standard_devation'', PyFloat sd), (''add_noise'', PyBool noise)]
         = Inr (data_obj out)"
    using d out mesh by simp
  show "length mn = length ab" by (rule len)
  show "length (dobs (data_obj out)) = length ab" using len out by simp
  show "header (written out) =
           [''AB/2 (m)'', ''MN/2 (m)'', ''App. Res. (Ohm m)'']
           @ (if noise then [''uncertainty (Ohm m)''] else [])"
    using out df by (simp add: to_csv_def)
  show "lines (written out) =
           map (\<lambda>i. [ab ! i, mn ! i, dobs (data_obj out) ! i]) [0..<length ab]" if "\<not> noise"
    using that c' out df out_dat by (simp add: to_csv_def)
  show "\<exists>us. uncertainty (data_obj out) = Some us \<and> length us = length ab
           \<and> lines (written out) =
               map (\<lambda>i. [ab ! i, mn ! i, dobs (data_obj out) ! i, us ! i]) [0..<length ab]"
    if "noise"
  proof -
    from that c' obtain us where us: "uncertainty data = Some us"
      and l: "length us = length out_dat"
      and o: "out_dat' = map (\<lambda>i. out_dat ! i @ [us ! i]) [0..<length out_dat]"
      by (auto simp: np_c_append_def split: option.splits if_splits)
    from o out_dat have "out_dat' = map (\<lambda>i. [ab ! i, mn ! i, dobs data ! i, us ! i]) [0..<length ab]"
      by simp
    with us l out_dat out df show ?thesis
      by (simp add: to_csv_def)
  qed
qed

lemma notebook_data:
  assumes run: "notebook lib ab mn model thk noise sd = Inr out"
  defines "sigma \<equiv> (if sd_keyword lib = ''standard_devation'' then sd else default_sd lib)"
  shows "\<exists>ls dclean. LayerStack model thk = Inr ls
           \<and> dpred lib ls (out_survey out) = Inr dclean
           \<and> data_obj out = noise_model (draw lib) sigma noise dclean
           \<and> length dclean = length ab
           \<and> (\<forall>i<length ab.
                apparent_resistivity lib ls i (- (ab ! i), 0, 0) (ab ! i, 0, 0)
                  (- (mn ! i), 0, 0) (mn ! i, 0, 0) = Inr (dclean ! i))"
proof -
  let ?srcs = "out_survey out"
  note nb = notebook_Inr [OF run]
  from make_synthetic_data_Inr [OF nb(4)] obtain ls dclean where
    ls: "LayerStack model thk = Inr ls"
    and dp: "dpred lib ls ?srcs = Inr dclean"
    and data: "data_obj out = noise_model (draw lib) sigma noise dclean"
    unfolding sigma_def notebook_keywords by blast
  note sv = make_survey_Inr [OF nb(1)]
  have one: "\<forall>s \<in> set ?srcs. \<exists>rx. receiver_list s = [rx]"
  proof
    fix s assume "s \<in> set ?srcs"
    then obtain i where "i < length ?srcs" "s = ?srcs ! i"
      by (auto simp: in_set_conv_nth)
    with sv(1) sv(3) [of i] show "\<exists>rx. receiver_list s = [rx]"
      by (simp add: sounding_source_receiver)
  qed
  from dpred_from_Inr [OF dp [unfolded dpred_def] one] have
    len: "length dclean = length ?srcs"
    and each: "\<And>i rx. i < length ?srcs \<Longrightarrow> receiver_list (?srcs ! i) = [rx] \<Longrightarrow>
        apparent_resistivity lib ls (0 + i) (A_location (?srcs ! i)) (B_location (?srcs ! i))
          (M_location rx) (N_location rx) = Inr (dclean ! i)"
    by blast+
  have "apparent_resistivity lib ls i (- (ab ! i), 0, 0) (ab ! i, 0, 0)
          (- (mn ! i), 0, 0) (mn ! i, 0, 0) = Inr (dclean ! i)" if "i < length ab" for i
    using each [of i "\<lparr>M_location = (- (mn ! i), 0, 0), N_location = (mn ! i, 0, 0)\<rparr>"]
      that sv(1) sv(3) [OF that]
    by (simp add: sounding_source_receiver)
  with ls dp data len sv(1) show ?thesis
    by auto
qed

subsection \<open>Running the notebook over the half-space instance\<close>

lemma halfspace_library_sounding:
  assumes "0 < m" "m < a"
  shows "apparent_resistivity (halfspace_library\<lparr>sd_keyword := k\<rparr>) ls idx
           (- a, 0, 0) (a, 0, 0) (- m, 0, 0) (m, 0, 0) = Inr (hd (stack_resistivities ls))"
    and "apparent_resistivity halfspace_library ls idx
           (- a, 0, 0) (a, 0, 0) (- m, 0, 0) (m, 0, 0) = Inr (hd (stack_resistivities ls))"
  using assms by (intro halfspace_sounding; simp add: halfspace_library_fields)+

lemmas notebook_eval =
  notebook_def make_survey_def receivers_Dipole_def sources_Dipole_def
  TensorMesh_def np_min_def make_synthetic_data_def DCSimulation_1D_def LayerStack_def
  dpred_def halfspace_library_sounding halfspace_library_fields noise_model_def
  keyword_float_def keyword_bool_def np_c3_def np_c_append_def DataFrame_def to_csv_def upt_rec

lemma notebook_run:
  "notebook halfspace_library half_AB_separation half_MN_separation resistivity_model
     layer_thicknesses add_noise standard_deviation =
   Inr \<lparr>out_survey = map (\<lambda>(a, m). sounding_source a m) (zip half_AB_separation half_MN_separation),
        data_obj = \<lparr>dobs = map (\<lambda>a. 400) half_AB_separation, uncertainty = None\<rparr>,
        written = \<lparr>header = [''AB/2 (m)'', ''MN/2 (m)'', ''App. Res. (Ohm m)''],
                   lines = map (\<lambda>(a, m). [a, m, 400]) (zip half_AB_separation half_MN_separation)\<rparr>\<rparr>"
  by (simp add: notebook_eval half_AB_separation_def half_MN_separation_def resistivity_model_def
        layer_thicknesses_def add_noise_def standard_deviation_def sounding_source_def)

text \<open>
  Had the call spelt the keyword as the library reads it, the value would reach the noise
  model: with the keyword bound, 5 and 50 per cent give different data.
\<close>

lemma matching_keyword_is_forwarded:
  "notebook (halfspace_library\<lparr>sd_keyword := ''standard_devation''\<rparr>)
     [5, 10] [1, 1] [400, 50] [8] True 0.05
   \<noteq> notebook (halfspace_library\<lparr>sd_keyword := ''standard_devation''\<rparr>)
     [5, 10] [1, 1] [400, 50] [8] True 0.5"
  by (simp add: notebook_eval)

section \<open>The written table\<close>

text \<open>
  C2. Whenever the notebook writes its table, the header is AB/2, MN/2, apparent
  resistivity, followed by the uncertainty column exactly when \<open>add_noise\<close> is set; there
  is one line per survey configuration, in the order of the input arrays: line \<open>i\<close> holds
  AB/2 and MN/2 of configuration \<open>i\<close> and the datum of that configuration (the apparent
  resistivity of source \<open>i\<close> and its receiver, perturbed when noise is on), and the
  uncertainty of that datum when the column is present.
\<close>

theorem written_table_in_survey_order:
  assumes run: "notebook lib ab mn model thk noise sd = Inr out"
  shows "header (written out) =
           [''AB/2 (m)'', ''MN/2 (m)'', ''App. Res. (Ohm m)'']
           @ (if noise then [''uncertainty (Ohm m)''] else [])
       \<and> length (out_survey out) = length ab
       \<and> length (dobs (data_obj out)) = length ab
       \<and> length (lines (written out)) = length ab
       \<and> (\<forall>i<length ab.
            out_survey out ! i = sounding_source (ab ! i) (mn ! i)
          \<and> (\<not> noise \<longrightarrow>
                lines (written out) ! i = [ab ! i, mn ! i, dobs (data_obj out) ! i])
          \<and> (noise \<longrightarrow>
                (\<exists>us. uncertainty (data_obj out) = Some us \<and> length us = length ab
                   \<and> lines (written out) ! i =
                       [ab ! i, mn ! i, dobs (data_obj out) ! i, us ! i]))
          \<and> (\<exists>ls d sigma.
                LayerStack model thk = Inr ls
              \<and> apparent_resistivity lib ls i (A_location (out_survey out ! i))
                  (B_location (out_survey out ! i))
                  (M_location (hd (receiver_list (out_survey out ! i))))
                  (N_location (hd (receiver_list (out_survey out ! i)))) = Inr d
              \<and> sigma = (if sd_keyword lib = ''standard_devation'' then sd else default_sd lib)
              \<and> dobs (data_obj out) ! i =
                  (if noise \<and> sigma \<noteq> 0 then d * (1 + sigma * draw lib i) else d)))"
proof -
  note nb = notebook_Inr [OF run]
  note sv = make_survey_Inr [OF nb(1)]
  define sigma where "sigma = (if sd_keyword lib = ''standard_devation'' then sd else default_sd lib)"
  from notebook_data [OF run] obtain ls dclean where
    ls: "LayerStack model thk = Inr ls"
    and data: "data_obj out = noise_model (draw lib) sigma noise dclean"
    and len: "length dclean = length ab"
    and each: "\<And>i. i < length ab \<Longrightarrow>
        apparent_resistivity lib ls i (- (ab ! i), 0, 0) (ab ! i, 0, 0)
          (- (mn ! i), 0, 0) (mn ! i, 0, 0) = Inr (dclean ! i)"
    unfolding sigma_def by blast
  have rows: "length (lines (written out)) = length ab"
    using nb(8) nb(9) by (cases noise) auto
  have row: "out_survey out ! i = sounding_source (ab ! i) (mn ! i)
          \<and> (\<not> noise \<longrightarrow>
                lines (written out) ! i = [ab ! i, mn ! i, dobs (data_obj out) ! i])
          \<and> (noise \<longrightarrow>
                (\<exists>us. uncertainty (data_obj out) = Some us \<and> length us = length ab
                   \<and> lines (written out) ! i =
                       [ab ! i, mn ! i, dobs (data_obj out) ! i, us ! i]))
          \<and> (\<exists>ls d sigma.
                LayerStack model thk = Inr ls
              \<and> apparent_resistivity lib ls i (A_location (out_survey out ! i))
                  (B_location (out_survey out ! i))
                  (M_location (hd (receiver_list (out_survey out ! i))))
                  (N_location (hd (receiver_list (out_survey out ! i)))) = Inr d
              \<and> sigma = (if sd_keyword lib = ''standard_devation'' then sd else default_sd lib)
              \<and> dobs (data_obj out) ! i =
                  (if noise \<and> sigma \<noteq> 0 then d * (1 + sigma * draw lib i) else d))"
    if i: "i < length ab" for i
  proof (intro conjI impI)
    show "out_survey out ! i = sounding_source (ab ! i) (mn ! i)"
      by (rule sv(3) [OF i])
    show "lines (written out) ! i = [ab ! i, mn ! i, dobs (data_obj out) ! i]" if "\<not> noise"
      using nb(8) [OF that] i by simp
    show "\<exists>us. uncertainty (data_obj out) = Some us \<and> length us = length ab
            \<and> lines (written out) ! i = [ab ! i, mn ! i, dobs (data_obj out) ! i, us ! i]"
      if "noise"
      using nb(9) [OF that] i by auto
    have "dobs (data_obj out) ! i =
            (if noise \<and> sigma \<noteq> 0 then dclean ! i * (1 + sigma * draw lib i) else dclean ! i)"
      using data len i by (simp add: noise_model_dobs)
    with ls each [OF i] sv(3) [OF i] show
      "\<exists>ls d sigma.
                LayerStack model thk = Inr ls
              \<and> apparent_resistivity lib ls i (A_location (out_survey out ! i))
                  (B_location (out_survey out ! i))
                  (M_location (hd (receiver_list (out_survey out ! i))))
                  (N_location (hd (receiver_list (out_survey out ! i)))) = Inr d
              \<and> sigma = (if sd_keyword lib = ''standard_devation'' then sd else default_sd lib)
              \<and> dobs (data_obj out) ! i =
                  (if noise \<and> sigma \<noteq> 0 then d * (1 + sigma * draw lib i) else d)"
      unfolding sigma_def by (simp add: sounding_source_receiver)
  qed
  from nb(7) sv(1) nb(6) rows row show ?thesis
    by blast
qed

theorem written_table_in_survey_order_witness:
  "notebook halfspace_library [5, 10] [1, 1] [400, 50] [8] True 0 =
     Inr \<lparr>out_survey = [sounding_source 5 1, sounding_source 10 1],
          data_obj = \<lparr>dobs = [420, 420], uncertainty = Some [20, 20]\<rparr>,
          written = \<lparr>header = [''AB/2 (m)'', ''MN/2 (m)'', ''App. Res. (Ohm m)'',
                               ''uncertainty (Ohm m)''],
                     lines = [[5, 1, 420, 20], [10, 1, 420, 20]]\<rparr>\<rparr>
   \<and> (\<exists>ls d. LayerStack [400, 50] [8] = Inr ls
         \<and> apparent_resistivity halfspace_library ls 1 (- 10, 0, 0) (10, 0, 0)
             (- 1, 0, 0) (1, 0, 0) = Inr d
         \<and> (420 :: real) = d * (1 + 0.05 * 1))"
proof -
  have r: "notebook halfspace_library [5, 10] [1, 1] [400, 50] [8] True 0 =
     Inr \<lparr>out_survey = [sounding_source 5 1, sounding_source 10 1],
          data_obj = \<lparr>dobs = [420, 420], uncertainty = Some [20, 20]\<rparr>,
          written = \<lparr>header = [''AB/2 (m)'', ''MN/2 (m)'', ''App. Res. (Ohm m)'',
                               ''uncertainty (Ohm m)''],
                     lines = [[5, 1, 420, 20], [10, 1, 420, 20]]\<rparr>\<rparr>"
    by (simp add: notebook_eval sounding_source_def)
  have "(1 :: nat) < length [5 :: real, 10]" by simp
  with written_table_in_survey_order [OF r]
  have "\<exists>ls d sigma.
          LayerStack [400, 50] [8] = Inr ls
        \<and> apparent_resistivity halfspace_library ls 1
            (A_location ([sounding_source 5 1, sounding_source 10 1] ! 1))
            (B_location ([sounding_source 5 1, sounding_source 10 1] ! 1))
            (M_location (hd (receiver_list ([sounding_source 5 1, sounding_source 10 1] ! 1))))
            (N_location (hd (receiver_list ([sounding_source 5 1, sounding_source 10 1] ! 1))))
            = Inr d
        \<and> sigma = (if sd_keyword halfspace_library = ''standard_devation'' then 0
                   else default_sd halfspace_library)
        \<and> [420 :: real, 420] ! 1 =
            (if True \<and> sigma \<noteq> 0 then d * (1 + sigma * draw halfspace_library 1) else d)"
    by fastforce
  then obtain ls d sigma where
    ls: "LayerStack [400, 50] [8] = Inr ls"
    and d: "apparent_resistivity halfspace_library ls 1
            (A_location ([sounding_source 5 1, sounding_source 10 1] ! 1))
            (B_location ([sounding_source 5 1, sounding_source 10 1] ! 1))
            (M_location (hd (receiver_list ([sounding_source 5 1, sounding_source 10 1] ! 1))))
            (N_location (hd (receiver_list ([sounding_source 5 1, sounding_source 10 1] ! 1))))
            = Inr d"
    and sigma: "sigma = (if sd_keyword halfspace_library = ''standard_devation'' then 0
                   else default_sd halfspace_library)"
    and v: "[420 :: real, 420] ! 1 =
            (if True \<and> sigma \<noteq> 0 then d * (1 + sigma * draw halfspace_library 1) else d)"
    by blast
  from sigma have "sigma = 0.05"
    by (simp add: halfspace_library_fields)
  with v have "(420 :: real) = d * (1 + 0.05 * 1)"
    by (simp add: halfspace_library_fields)
  moreover from d have "apparent_resistivity halfspace_library ls 1 (- 10, 0, 0) (10, 0, 0)
       (- 1, 0, 0) (1, 0, 0) = Inr d"
    by (simp add: sounding_source_def)
  ultimately show ?thesis
    using r ls by blast
qed

section \<open>Noise\<close>

text \<open>
  The noise model is disabled by a zero standard deviation as well as by the flag: either
  way it returns the values it was given, with no uncertainty.
\<close>

lemma noise_model_disabled:
  assumes "sigma = 0 \<or> \<not> flag"
  shows "noise_model z sigma flag vals = \<lparr>dobs = vals, uncertainty = None\<rparr>"
  using assms by (auto simp: noise_model_def)

text \<open>
  With the \<open>add_noise\<close> flag off, whatever \<open>standard_deviation\<close> is, the values of the
  data object are exactly the noiseless predictions of the forward simulation for the
  survey, no uncertainty is attached to the data object, and the written table has the
  three columns AB/2, MN/2 and apparent resistivity only.
\<close>

lemma noise_flag_off_leaves_data_clean:
  assumes run: "notebook lib ab mn model thk False sd = Inr out"
  shows "(\<exists>ls. LayerStack model thk = Inr ls
            \<and> dpred lib ls (out_survey out) = Inr (dobs (data_obj out)))
       \<and> uncertainty (data_obj out) = None
       \<and> header (written out) = [''AB/2 (m)'', ''MN/2 (m)'', ''App. Res. (Ohm m)'']
       \<and> list_all (\<lambda>row. length row = 3) (lines (written out))"
proof -
  note nb = notebook_Inr [OF run]
  from notebook_data [OF run] obtain ls dclean where
    "LayerStack model thk = Inr ls" "dpred lib ls (out_survey out) = Inr dclean"
    "data_obj out = noise_model (draw lib)
       (if sd_keyword lib = ''standard_devation'' then sd else default_sd lib) False dclean"
    by blast
  then have "(\<exists>ls. LayerStack model thk = Inr ls
            \<and> dpred lib ls (out_survey out) = Inr (dobs (data_obj out)))"
    and "uncertainty (data_obj out) = None"
    by (auto simp: noise_model_def)
  moreover have "list_all (\<lambda>row. length row = 3) (lines (written out))"
    using nb(8) by (simp add: list_all_iff)
  ultimately show ?thesis
    using nb(7) by simp
qed

lemma noise_flag_off_run:
  "notebook halfspace_library [5, 10] [1, 1] [400, 50] [8] False 0 =
     Inr \<lparr>out_survey = [sounding_source 5 1, sounding_source 10 1],
          data_obj = \<lparr>dobs = [400, 400], uncertainty = None\<rparr>,
          written = \<lparr>header = [''AB/2 (m)'', ''MN/2 (m)'', ''App. Res. (Ohm m)''],
                     lines = [[5, 1, 400], [10, 1, 400]]\<rparr>\<rparr>
   \<and> (\<exists>ls. LayerStack [400, 50] [8] = Inr ls
         \<and> dpred halfspace_library ls [sounding_source 5 1, sounding_source 10 1]
             = Inr [400, 400])"
proof -
  have r: "notebook halfspace_library [5, 10] [1, 1] [400, 50] [8] False 0 =
     Inr \<lparr>out_survey = [sounding_source 5 1, sounding_source 10 1],
          data_obj = \<lparr>dobs = [400, 400], uncertainty = None\<rparr>,
          written = \<lparr>header = [''AB/2 (m)'', ''MN/2 (m)'', ''App. Res. (Ohm m)''],
                     lines = [[5, 1, 400], [10, 1, 400]]\<rparr>\<rparr>"
    by (simp add: notebook_eval sounding_source_def)
  from r noise_flag_off_leaves_data_clean [OF r] show ?thesis
    by simp
qed

text \<open>
  A zero standard deviation that reaches the library has the same effect on the data. For
  a library that reads the keyword as the notebook spells it, the data call returns the
  noiseless predictions without uncertainty, and the notebook, finding no uncertainty to
  append, stops with ValueError and writes nothing.
\<close>

lemma zero_sigma_delivered_leaves_data_clean:
  assumes "sd_keyword lib = ''standard_devation''"
    and "make_synthetic_data lib (DCSimulation_1D srcs (IdentityMap n) thk dt) m
           [(''standard_devation'', PyFloat 0), (''add_noise'', PyBool noise)] = Inr data"
  shows "\<exists>ls. LayerStack m thk = Inr ls \<and> dpred lib ls srcs = Inr (dobs data)
           \<and> uncertainty data = None"
proof -
  from make_synthetic_data_Inr [OF assms(2)] obtain ls dclean where
    "LayerStack m thk = Inr ls" "dpred lib ls srcs = Inr dclean"
    "data = noise_model (draw lib) 0 noise dclean"
    unfolding notebook_keywords assms(1) by auto
  then show ?thesis
    by (auto simp: noise_model_disabled)
qed

lemma zero_sigma_delivered_writes_nothing:
  "notebook (halfspace_library\<lparr>sd_keyword := ''standard_devation''\<rparr>)
     [5, 10] [1, 1] [400, 50] [8] True 0 = Inl ValueError"
  by (simp add: notebook_eval)

text \<open>
  C3. Noise counts as disabled when \<open>standard_deviation = 0\<close> or when the flag is off: the
  data are then the noiseless predictions and no uncertainty is attached or written. The
  notebook keeps this for the flag, but not for the standard deviation. Its text introduces
  \<open>standard_deviation\<close> as the amount of noise to add, yet the call hands the value over
  under the keyword \<open>standard_devation\<close>, so a library that takes it under
  \<open>standard_deviation\<close> never sees the zero and keeps its default. At the input below,
  with the flag on and \<open>standard_deviation = 0\<close>, the data are 420 where the noiseless
  prediction is 400, uncertainties of 20 are attached, and the uncertainty column is written.
\<close>

theorem zero_sigma_not_delivered:
  "notebook halfspace_library [5, 10] [1, 1] [400, 50] [8] True 0 =
     Inr \<lparr>out_survey = [sounding_source 5 1, sounding_source 10 1],
          data_obj = \<lparr>dobs = [420, 420], uncertainty = Some [20, 20]\<rparr>,
          written = \<lparr>header = [''AB/2 (m)'', ''MN/2 (m)'', ''App. Res. (Ohm m)'',
                               ''uncertainty (Ohm m)''],
                     lines = [[5, 1, 420, 20], [10, 1, 420, 20]]\<rparr>\<rparr>
   \<and> dpred halfspace_library \<lparr>stack_resistivities = [400, 50], stack_thicknesses = [8]\<rparr>
        [sounding_source 5 1, sounding_source 10 1] = Inr [400, 400]"
  by (simp add: notebook_eval sounding_source_def)

text \<open>
  C4. The run does not depend on the value of \<open>standard_deviation\<close>: the notebook passes
  it under the keyword \<open>standard_devation\<close>, and as long as that is not the name under
  which the library takes the standard deviation, two runs that differ only in this value
  give the same result (the same error, or the same survey, data and written table).
\<close>

theorem standard_deviation_not_forwarded:
  assumes "sd_keyword lib \<noteq> ''standard_devation''"
  shows "notebook lib ab mn model thk noise sd1 = notebook lib ab mn model thk noise sd2"
  unfolding notebook_def make_synthetic_data_misspelt [OF assms, of _ _ sd1 noise sd2] ..

theorem standard_deviation_not_forwarded_witness:
  "sd_keyword halfspace_library \<noteq> ''standard_devation''
   \<and> notebook halfspace_library [5, 10] [1, 1] [400, 50] [8] True 0.05
     = notebook halfspace_library [5, 10] [1, 1] [400, 50] [8] True 0.5"
proof -
  have h: "sd_keyword halfspace_library \<noteq> ''standard_devation''"
    by (simp add: halfspace_library_fields)
  from h standard_deviation_not_forwarded
    [OF h, of "[5, 10]" "[1, 1]" "[400, 50]" "[8]" True "0.05" "0.5"]
  show ?thesis by simp
qed

section \<open>Validation of the model and of the electrodes\<close>

text \<open>
  C6. Constructing the layer stack fails with InvalidModelError exactly when the number of
  thicknesses is not one less than the number of resistivities, or some resistivity or
  stored thickness is not positive. Otherwise it succeeds, with at least one layer and
  positive entries. A failing model makes the data call fail with the same error whatever
  the survey and the numerical parameters of the library are, so before anything is
  computed.
\<close>

theorem layer_stack_construction:
  "(LayerStack rho thk = Inl InvalidModelError) =
     (int (length thk) \<noteq> int (length rho) - 1
      \<or> (\<exists>r \<in> set rho. r \<le> 0) \<or> (\<exists>t \<in> set thk. t \<le> 0))
   \<and> (LayerStack rho thk \<noteq> Inl InvalidModelError \<longrightarrow>
        LayerStack rho thk = Inr \<lparr>stack_resistivities = rho, stack_thicknesses = thk\<rparr>
        \<and> 1 \<le> n_layers \<lparr>stack_resistivities = rho, stack_thicknesses = thk\<rparr>
        \<and> length thk + 1 = length rho
        \<and> (\<forall>r \<in> set rho. 0 < r) \<and> (\<forall>t \<in> set thk. 0 < t))
   \<and> (LayerStack rho thk = Inl InvalidModelError \<longrightarrow> \<not> keyword_strict lib \<longrightarrow>
        make_synthetic_data lib (DCSimulation_1D srcs (IdentityMap n) thk dt) rho kwargs
        = Inl InvalidModelError)"
proof (intro conjI impI)
  show "(LayerStack rho thk = Inl InvalidModelError) =
     (int (length thk) \<noteq> int (length rho) - 1
      \<or> (\<exists>r \<in> set rho. r \<le> 0) \<or> (\<exists>t \<in> set thk. t \<le> 0))"
    by (auto simp: LayerStack_def list_ex_iff)
next
  assume ok: "LayerStack rho thk \<noteq> Inl InvalidModelError"
  then show "LayerStack rho thk = Inr \<lparr>stack_resistivities = rho, stack_thicknesses = thk\<rparr>"
    by (auto simp: LayerStack_def split: if_splits)
  from ok show "1 \<le> n_layers \<lparr>stack_resistivities = rho, stack_thicknesses = thk\<rparr>"
    by (auto simp: LayerStack_def n_layers_def split: if_splits)
  from ok show "length thk + 1 = length rho"
    by (auto simp: LayerStack_def split: if_splits)
  from ok show "\<forall>r \<in> set rho. 0 < r"
    by (auto simp: LayerStack_def list_ex_iff not_le split: if_splits)
  from ok show "\<forall>t \<in> set thk. 0 < t"
    by (auto simp: LayerStack_def list_ex_iff not_le split: if_splits)
next
  assume "LayerStack rho thk = Inl InvalidModelError" "\<not> keyword_strict lib"
  then show "make_synthetic_data lib (DCSimulation_1D srcs (IdentityMap n) thk dt) rho kwargs
        = Inl InvalidModelError"
    by (rule identity_mapping_invalid)
qed

theorem layer_stack_construction_witness:
  "LayerStack resistivity_model layer_thicknesses =
     Inr \<lparr>stack_resistivities = resistivity_model, stack_thicknesses = layer_thicknesses\<rparr>
   \<and> n_layers \<lparr>stack_resistivities = resistivity_model, stack_thicknesses = layer_thicknesses\<rparr> = 7
   \<and> LayerStack [400, 50] [8, 8] = Inl InvalidModelError
   \<and> LayerStack [400, 0] [8] = Inl InvalidModelError
   \<and> LayerStack [400, 50] [- 8] = Inl InvalidModelError
   \<and> LayerStack [] [] = Inl InvalidModelError
   \<and> make_synthetic_data halfspace_library
        (DCSimulation_1D [sounding_source 5 1] (IdentityMap 2) [- 8] ''apparent_resistivity'')
        [400, 50] [] = Inl InvalidModelError"
proof -
  have a: "LayerStack resistivity_model layer_thicknesses \<noteq> Inl InvalidModelError"
    by (simp add: LayerStack_def resistivity_model_def layer_thicknesses_def)
  have b: "LayerStack [400, 50] [- 8] = Inl InvalidModelError"
    "\<not> keyword_strict halfspace_library"
    by (simp_all add: LayerStack_def halfspace_library_fields)
  from a layer_stack_construction [of resistivity_model layer_thicknesses]
  have "LayerStack resistivity_model layer_thicknesses =
     Inr \<lparr>stack_resistivities = resistivity_model, stack_thicknesses = layer_thicknesses\<rparr>"
    by blast
  moreover from b layer_stack_construction [of "[400, 50]" "[- 8]" halfspace_library
      "[sounding_source 5 1]" 2 "''apparent_resistivity''" "[]"]
  have "make_synthetic_data halfspace_library
        (DCSimulation_1D [sounding_source 5 1] (IdentityMap 2) [- 8] ''apparent_resistivity'')
        [400, 50] [] = Inl InvalidModelError"
    by blast
  moreover have "LayerStack [400, 50] [8, 8] = Inl InvalidModelError"
    "LayerStack [400, 0] [8] = Inl InvalidModelError"
    "LayerStack [] [] = Inl InvalidModelError"
    by (simp_all add: LayerStack_def)
  ultimately show ?thesis
    using b(1) by (simp add: n_layers_def resistivity_model_def)
qed

text \<open>
  C7. A source dipole is rejected with DegenerateElectrodeError exactly when A = B, a
  receiver dipole exactly when M = N, and a dipole with distinct electrodes is accepted as
  given. In the notebook, a zero AB/2 or MN/2 makes the two electrodes of a pair coincide:
  the survey is then not built, and the run ends with DegenerateElectrodeError instead of
  data, so no apparent resistivity, finite or not, comes out.
\<close>

theorem degenerate_electrodes_rejected:
  "(sources_Dipole rxs A B = Inl DegenerateElectrodeError) = (A = B)
   \<and> (receivers_Dipole M N = Inl DegenerateElectrodeError) = (M = N)
   \<and> (A \<noteq> B \<longrightarrow>
        sources_Dipole rxs A B = Inr \<lparr>receiver_list = rxs, A_location = A, B_location = B\<rparr>)
   \<and> (M \<noteq> N \<longrightarrow> receivers_Dipole M N = Inr \<lparr>M_location = M, N_location = N\<rparr>)
   \<and> (length mn = length ab \<and> i < length ab \<and> (ab ! i = 0 \<or> mn ! i = 0) \<longrightarrow>
        make_survey ab mn = Inl DegenerateElectrodeError
        \<and> notebook lib ab mn model thk noise sd = Inl DegenerateElectrodeError)"
proof (intro conjI impI)
  show "(sources_Dipole rxs A B = Inl DegenerateElectrodeError) = (A = B)"
    by (simp add: sources_Dipole_def)
  show "(receivers_Dipole M N = Inl DegenerateElectrodeError) = (M = N)"
    by (simp add: receivers_Dipole_def)
  show "sources_Dipole rxs A B = Inr \<lparr>receiver_list = rxs, A_location = A, B_location = B\<rparr>"
    if "A \<noteq> B" using that by (simp add: sources_Dipole_def)
  show "receivers_Dipole M N = Inr \<lparr>M_location = M, N_location = N\<rparr>"
    if "M \<noteq> N" using that by (simp add: receivers_Dipole_def)
next
  assume "length mn = length ab \<and> i < length ab \<and> (ab ! i = 0 \<or> mn ! i = 0)"
  then show s: "make_survey ab mn = Inl DegenerateElectrodeError"
    by (intro make_survey_degenerate [of mn ab i]) simp_all
  then show "notebook lib ab mn model thk noise sd = Inl DegenerateElectrodeError"
    by (simp add: notebook_def)
qed

theorem degenerate_electrodes_rejected_witness:
  "sources_Dipole [] (0, 0, 0) (0, 0, 0) = Inl DegenerateElectrodeError
   \<and> sources_Dipole [] (- 5, 0, 0) (5, 0, 0)
       = Inr \<lparr>receiver_list = [], A_location = (- 5, 0, 0), B_location = (5, 0, 0)\<rparr>
   \<and> receivers_Dipole (- 1, 0, 0) (1, 0, 0)
       = Inr \<lparr>M_location = (- 1, 0, 0), N_location = (1, 0, 0)\<rparr>
   \<and> make_survey [5, 0] [1, 1] = Inl DegenerateElectrodeError
   \<and> notebook halfspace_library [5, 0] [1, 1] [400, 50] [8] False 0.05
       = Inl DegenerateElectrodeError"
proof -
  have h: "(- 5, 0, 0) \<noteq> (5 :: real, 0 :: real, 0 :: real)"
     "(- 1, 0, 0) \<noteq> (1 :: real, 0 :: real, 0 :: real)"
     "length [1 :: real, 1] = length [5 :: real, 0] \<and> 1 < length [5 :: real, 0]
        \<and> ([5 :: real, 0] ! 1 = 0 \<or> [1 :: real, 1] ! 1 = 0)"
    by simp_all
  note t = degenerate_electrodes_rejected
  from t [of "[]" "(0, 0, 0)" "(0, 0, 0)"]
  have "sources_Dipole [] (0, 0, 0) (0, 0, 0) = Inl DegenerateElectrodeError"
    by blast
  moreover from h t [of "[]" "(- 5, 0, 0)" "(5, 0, 0)" "(- 1, 0, 0)" "(1, 0, 0)"
      "[1, 1]" "[5, 0]" 1 halfspace_library "[400, 50]" "[8]" False "0.05"]
  have "sources_Dipole [] (- 5, 0, 0) (5, 0, 0)
       = Inr \<lparr>receiver_list = [], A_location = (- 5, 0, 0), B_location = (5, 0, 0)\<rparr>"
    "receivers_Dipole (- 1, 0, 0) (1, 0, 0)
       = Inr \<lparr>M_location = (- 1, 0, 0), N_location = (1, 0, 0)\<rparr>"
    "make_survey [5, 0] [1, 1] = Inl DegenerateElectrodeError"
    "notebook halfspace_library [5, 0] [1, 1] [400, 50] [8] False 0.05
       = Inl DegenerateElectrodeError"
    by blast+
  ultimately show ?thesis by blast
qed

section \<open>Reciprocity\<close>

text \<open>
  C8. Exchanging the source dipole (A, B) with the receiver dipole (M, N) leaves the result
  of the forward computation for the configuration unchanged, for every layer stack, every
  four electrode positions and every library: the same apparent resistivity, or the same
  error. The equality is exact in real arithmetic, hence within every tolerance.
\<close>

theorem reciprocity:
  "apparent_resistivity lib ls idx M N A B = apparent_resistivity lib ls idx A B M N"
proof -
  have sym: "offset M A = offset A M" "offset N A = offset A N"
    "offset M B = offset B M" "offset N B = offset B N"
    by (rule offset_sym)+
  show ?thesis
    unfolding apparent_resistivity_def sym Let_def
    by (auto simp: geometric_factor_swap algebra_simps split: option.splits)
qed

theorem reciprocity_witness:
  "apparent_resistivity halfspace_library
     \<lparr>stack_resistivities = [400, 50], stack_thicknesses = [8]\<rparr> 0
     (- 1, 0, 0) (1, 0, 0) (- 5, 0, 0) (5, 0, 0) = Inr 400
   \<and> apparent_resistivity halfspace_library
     \<lparr>stack_resistivities = [400, 50], stack_thicknesses = [8]\<rparr> 0
     (- 5, 0, 0) (5, 0, 0) (- 1, 0, 0) (1, 0, 0) = Inr 400"
  using reciprocity [of halfspace_library
      "\<lparr>stack_resistivities = [400, 50], stack_thicknesses = [8]\<rparr>" 0
      "(- 1, 0, 0)" "(1, 0, 0)" "(- 5, 0, 0)" "(5, 0, 0)"]
    halfspace_library_sounding(2)
      [of 1 5 "\<lparr>stack_resistivities = [400, 50], stack_thicknesses = [8]\<rparr>" 0]
  by simp

section \<open>Dimensions of the notebook's own run\<close>

text \<open>
  C10. The two separation arrays of the notebook have 29 entries each, the survey has 29
  sources, and the written file has a header of three names and 29 data lines of three
  values each (AB/2, MN/2 and the datum of the same index; no index column). The
  resistivity model has 7 entries and the thicknesses 6, so that the mesh, and with it the
  identity mapping, has as many cells as the model has entries, and the layer stack has 7
  layers.
\<close>

theorem notebook_dimensions:
  "length half_AB_separation = 29 \<and> length half_MN_separation = 29
   \<and> length resistivity_model = 7 \<and> length layer_thicknesses = 6
   \<and> (\<exists>mesh. TensorMesh layer_thicknesses = Inr mesh \<and> length mesh = length resistivity_model)
   \<and> (\<exists>ls. LayerStack resistivity_model layer_thicknesses = Inr ls \<and> n_layers ls = 7)
   \<and> (\<exists>srcs. make_survey half_AB_separation half_MN_separation = Inr srcs \<and> length srcs = 29)
   \<and> (notebook lib half_AB_separation half_MN_separation resistivity_model layer_thicknesses
         add_noise standard_deviation = Inr out \<longrightarrow>
         length (out_survey out) = 29
       \<and> length (dobs (data_obj out)) = 29
       \<and> header (written out) = [''AB/2 (m)'', ''MN/2 (m)'', ''App. Res. (Ohm m)'']
       \<and> length (lines (written out)) = 29
       \<and> (\<forall>i<29. lines (written out) ! i =
            [half_AB_separation ! i, half_MN_separation ! i, dobs (data_obj out) ! i]))"
proof -
  have len: "length half_AB_separation = 29" "length half_MN_separation = 29"
    by (simp_all add: half_AB_separation_def half_MN_separation_def)
  have model: "length resistivity_model = 7" "length layer_thicknesses = 6"
    by (simp_all add: resistivity_model_def layer_thicknesses_def)
  have mesh: "\<exists>mesh. TensorMesh layer_thicknesses = Inr mesh \<and> length mesh = length resistivity_model"
    by (simp add: TensorMesh_def resistivity_model_def layer_thicknesses_def)
  have stack: "\<exists>ls. LayerStack resistivity_model layer_thicknesses = Inr ls \<and> n_layers ls = 7"
    by (simp add: LayerStack_def n_layers_def resistivity_model_def layer_thicknesses_def)
  have srcs: "\<exists>srcs. make_survey half_AB_separation half_MN_separation = Inr srcs \<and> length srcs = 29"
    using len by (simp add: notebook_survey)
  have run: "length (out_survey out) = 29
       \<and> length (dobs (data_obj out)) = 29
       \<and> header (written out) = [''AB/2 (m)'', ''MN/2 (m)'', ''App. Res. (Ohm m)'']
       \<and> length (lines (written out)) = 29
       \<and> (\<forall>i<29. lines (written out) ! i =
            [half_AB_separation ! i, half_MN_separation ! i, dobs (data_obj out) ! i])"
    if r: "notebook lib half_AB_separation half_MN_separation resistivity_model layer_thicknesses
         add_noise standard_deviation = Inr out"
  proof -
    note nb = notebook_Inr [OF r]
    have off: "\<not> add_noise" by (simp add: add_noise_def)
    from make_survey_Inr(1) [OF nb(1)] nb(6) nb(7) nb(8) [OF off] off len show ?thesis
      by simp
  qed
  from len model mesh stack srcs run show ?thesis
    by blast
qed

theorem notebook_dimensions_witness:
  "notebook halfspace_library half_AB_separation half_MN_separation resistivity_model
     layer_thicknesses add_noise standard_deviation =
   Inr \<lparr>out_survey = map (\<lambda>(a, m). sounding_source a m) (zip half_AB_separation half_MN_separation),
        data_obj = \<lparr>dobs = map (\<lambda>a. 400) half_AB_separation, uncertainty = None\<rparr>,
        written = \<lparr>header = [''AB/2 (m)'', ''MN/2 (m)'', ''App. Res. (Ohm m)''],
                   lines = map (\<lambda>(a, m). [a, m, 400]) (zip half_AB_separation half_MN_separation)\<rparr>\<rparr>
   \<and> length (map (\<lambda>(a, m). [a, m, 400 :: real]) (zip half_AB_separation half_MN_separation)) = 29
   \<and> length (map (\<lambda>a. 400 :: real) half_AB_separation) = 29"
  using notebook_run
    notebook_dimensions [of halfspace_library
      "\<lparr>out_survey = map (\<lambda>(a, m). sounding_source a m) (zip half_AB_separation half_MN_separation),
        data_obj = \<lparr>dobs = map (\<lambda>a. 400) half_AB_separation, uncertainty = None\<rparr>,
        written = \<lparr>header = [''AB/2 (m)'', ''MN/2 (m)'', ''App. Res. (Ohm m)''],
                   lines = map (\<lambda>(a, m). [a, m, 400]) (zip half_AB_separation half_MN_separation)\<rparr>\<rparr>"]
  by simp

end
